theory Spec2Isabelle
  imports Complex_Main
begin

section \<open>The valuation engine of dcf\_app\_v2.py\<close>

text \<open>
  A shallow embedding of \<^verbatim>\<open>discounted_cash_flow\<close> and \<^verbatim>\<open>sensitivity_analysis\<close>
  of \<^verbatim>\<open>src/dcf_app_v2.py\<close>.

  Modelling decisions:
  \<^item> Finite floating-point numbers are idealised as \<^typ>\<open>real\<close>: rounding and overflow
    are outside the model. A NaN cell of a data frame (what \<^verbatim>\<open>pd.isna\<close> tests for) is a
    cell holding \<open>None\<close>.
  \<^item> The free cash flow is a cell of a data frame, a \<^verbatim>\<open>numpy.float64\<close>, and so is every
    number computed from it. A division of such numbers by zero raises nothing: it gives
    an infinity or NaN, which the later lines carry on. The type \<open>npfloat\<close> holds these
    results; the sign of a zero and of an infinity is not modelled.
  \<^item> An exception that leaves a function is \<open>Raised e\<close>, a value it returns is
    \<open>Returned v\<close>. Inside a \<^verbatim>\<open>try\<close> block a raised exception is \<open>Inl e\<close>.
  \<^item> The arguments are typed (the ticker is a string, the rates are finite numbers), so
    the two \<^verbatim>\<open>isinstance\<close> checks of lines 56-59 pass and no \<^verbatim>\<open>TypeError\<close> is raised.
  \<^item> The market-data library is a parameter: \<open>yf_Ticker\<close> maps a ticker to what the
    properties \<^verbatim>\<open>info\<close>, \<^verbatim>\<open>cashflow\<close> and \<^verbatim>\<open>balance_sheet\<close> hold; reading them is
    taken to return.
\<close>

subsection \<open>Values, exceptions, dictionaries\<close>

text \<open>
  A value of a result dictionary. \<open>PNum\<close> is a finite number, \<open>PInf\<close> an infinity of
  either sign, \<open>PNaN\<close> a NaN.
\<close>

datatype pyval = PNone | PNum real | PInf | PNaN | PList "real list" | PStr string

datatype py_exn =
    ValueError string
  | KeyError string
  | IndexError string

text \<open>\<^verbatim>\<open>str(e)\<close>: the message; for a \<^verbatim>\<open>KeyError\<close> the key in quotes.\<close>

fun str_exn :: "py_exn \<Rightarrow> string" where
  "str_exn (ValueError m) = m"
| "str_exn (KeyError k) = [CHR 0x27] @ k @ [CHR 0x27]"
| "str_exn (IndexError m) = m"

datatype 'a outcome = Raised py_exn | Returned 'a

text \<open>A dictionary literal, in the order it is written.\<close>

type_synonym pydict = "(string \<times> pyval) list"

subsection \<open>Arithmetic of numpy.float64\<close>

text \<open>
  The result of an operation with a \<^verbatim>\<open>numpy.float64\<close> operand: a finite number, an
  infinity (of either sign) or NaN.
\<close>

datatype npfloat = Fin real | Infty | NaN

definition pyfloat :: "npfloat \<Rightarrow> pyval" where
  "pyfloat x = (case x of Fin v \<Rightarrow> PNum v | Infty \<Rightarrow> PInf | NaN \<Rightarrow> PNaN)"

text \<open>
  \<^verbatim>\<open>a / b\<close> for finite \<open>a\<close> and \<open>b\<close>: zero by zero is NaN, another number by zero is an
  infinity, and nothing is raised.
\<close>

definition true_divide :: "real \<Rightarrow> real \<Rightarrow> npfloat" where
  "true_divide a b = (if b = 0 then (if a = 0 then NaN else Infty) else Fin (a / b))"

text \<open>\<^verbatim>\<open>x - c\<close>, \<^verbatim>\<open>c - x\<close> and \<^verbatim>\<open>c + x\<close> for a finite \<open>c\<close>.\<close>

definition np_sub_real :: "npfloat \<Rightarrow> real \<Rightarrow> npfloat" where
  "np_sub_real x c = (case x of Fin v \<Rightarrow> Fin (v - c) | Infty \<Rightarrow> Infty | NaN \<Rightarrow> NaN)"

definition real_sub_np :: "real \<Rightarrow> npfloat \<Rightarrow> npfloat" where
  "real_sub_np c x = (case x of Fin v \<Rightarrow> Fin (c - v) | Infty \<Rightarrow> Infty | NaN \<Rightarrow> NaN)"

definition real_add_np :: "real \<Rightarrow> npfloat \<Rightarrow> npfloat" where
  "real_add_np c x = (case x of Fin v \<Rightarrow> Fin (c + v) | Infty \<Rightarrow> Infty | NaN \<Rightarrow> NaN)"

text \<open>
  \<^verbatim>\<open>x / y\<close>: an infinity by a finite number is an infinity, a finite number by an
  infinity is zero, an infinity by an infinity is NaN, and NaN gives NaN.
\<close>

definition np_divide :: "npfloat \<Rightarrow> npfloat \<Rightarrow> npfloat" where
  "np_divide x y =
     (case x of
        NaN \<Rightarrow> NaN
      | Fin a \<Rightarrow> (case y of Fin b \<Rightarrow> true_divide a b | Infty \<Rightarrow> Fin 0 | NaN \<Rightarrow> NaN)
      | Infty \<Rightarrow> (case y of Fin b \<Rightarrow> Infty | Infty \<Rightarrow> NaN | NaN \<Rightarrow> NaN))"

subsection \<open>Lists\<close>

text \<open>\<^verbatim>\<open>xs[-1]\<close>\<close>

definition last_item :: "real list \<Rightarrow> py_exn + real" where
  "last_item xs =
     (if xs = [] then Inl (IndexError ''list index out of range'') else Inr (last xs))"

subsection \<open>The data source\<close>

text \<open>
  A data frame is its rows: the row label and the cells of the row, by column position.
  A cell is \<open>None\<close> where pandas holds NaN. \<^verbatim>\<open>info\<close> is a dictionary; the entries the
  function reads are numbers.
\<close>

type_synonym cell = "real option"

type_synonym dataframe = "(string \<times> cell list) list"

record stock =
  info :: "(string \<times> real) list option"
  cashflow :: "dataframe option"
  balance_sheet :: "dataframe option"

text \<open>\<^verbatim>\<open>df.empty\<close>: no rows or no columns.\<close>

definition df_empty :: "dataframe \<Rightarrow> bool" where
  "df_empty df = (case df of [] \<Rightarrow> True | (l, cs) # rest \<Rightarrow> cs = [])"

text \<open>\<^verbatim>\<open>df.loc[label].iloc[0]\<close>\<close>

definition loc_iloc0 :: "dataframe \<Rightarrow> string \<Rightarrow> py_exn + cell" where
  "loc_iloc0 df label =
     (case map_of df label of
        None \<Rightarrow> Inl (KeyError label)
      | Some cs \<Rightarrow>
          (case cs of
             [] \<Rightarrow> Inl (IndexError ''single positional indexer is out-of-bounds'')
           | c # rest \<Rightarrow> Inr c))"

subsection \<open>discounted\_cash\_flow\<close>

definition error_message :: "string \<Rightarrow> pydict" where
  "error_message m = [(''Error Message'', PStr m)]"

text \<open>
  The local variables that hold the company's figures once lines 75-112 have read them.
\<close>

record facts =
  free_cash_flow :: real
  market_cap :: real
  current_price :: real
  total_liabilities :: real
  cash_and_equivalents :: real
  net_debt :: real
  shares_outstanding :: real

text \<open>
  Line 104: the total liabilities, under the first of the two labels the balance sheet has.
\<close>

definition total_liabilities_of :: "dataframe \<Rightarrow> py_exn + cell" where
  "total_liabilities_of balance =
     (if ''Total Liabilities Net Minority Interest'' \<in> set (map fst balance)
      then loc_iloc0 balance ''Total Liabilities Net Minority Interest''
      else loc_iloc0 balance ''Total Liabilities'')"

text \<open>
  Lines 75-112, the data retrieval: \<open>Inl e\<close> is an exception raised there, \<open>Inr (Inl d)\<close>
  the dictionary \<open>d\<close> returned from there, \<open>Inr (Inr f)\<close> the figures with which the
  function goes on. Line 106 subtracts before line 107 tests the operands for NaN; the
  subtraction of a NaN raises nothing, so the model tests first. Line 89 repeats the test
  of line 78 on the same value.
\<close>

definition retrieve :: "(string \<Rightarrow> stock) \<Rightarrow> string \<Rightarrow> py_exn + (pydict + facts)" where
  "retrieve yf_Ticker ticker =
     (let stock = yf_Ticker ticker in
      case info stock of
        None \<Rightarrow> Inr (Inl (error_message (''Invalid ticker symbol: '' @ ticker)))
      | Some info_dict \<Rightarrow>
      if info_dict = [] then Inr (Inl (error_message (''Invalid ticker symbol: '' @ ticker)))
      else
      (case cashflow stock of
        None \<Rightarrow> Inr (Inl (error_message ''Cash flow statement data unavailable.''))
      | Some cashflow_statement \<Rightarrow>
      if df_empty cashflow_statement
      then Inr (Inl (error_message ''Cash flow statement data unavailable.''))
      else
      (case balance_sheet stock of
        None \<Rightarrow> Inr (Inl (error_message ''Balance sheet data unavailable.''))
      | Some balance \<Rightarrow>
      if df_empty balance then Inr (Inl (error_message ''Balance sheet data unavailable.''))
      else
      (case loc_iloc0 cashflow_statement ''Free Cash Flow'' of
        Inl e \<Rightarrow> Inl e
      | Inr None \<Rightarrow> Inr (Inl (error_message ''Free Cash Flow data unavailable.''))
      | Inr (Some fcf) \<Rightarrow>
      (case map_of info_dict ''marketCap'' of
        None \<Rightarrow> Inr (Inl (error_message ''Market capitalization data unavailable.''))
      | Some cap \<Rightarrow>
      (case map_of info_dict ''currentPrice'' of
        None \<Rightarrow> Inr (Inl (error_message ''Current price data unavailable.''))
      | Some price \<Rightarrow>
      (case total_liabilities_of balance of
        Inl e \<Rightarrow> Inl e
      | Inr liabilities_cell \<Rightarrow>
      (case loc_iloc0 balance ''Cash And Cash Equivalents'' of
        Inl e \<Rightarrow> Inl e
      | Inr cash_cell \<Rightarrow>
      (case (liabilities_cell, cash_cell) of
        (Some liabilities, Some cash) \<Rightarrow>
          (case map_of info_dict ''sharesOutstanding'' of
             None \<Rightarrow> Inr (Inl (error_message ''Shares outstanding unavailable.''))
           | Some shares \<Rightarrow>
               Inr (Inr \<lparr> free_cash_flow = fcf, market_cap = cap, current_price = price,
                          total_liabilities = liabilities, cash_and_equivalents = cash,
                          net_debt = liabilities - cash, shares_outstanding = shares \<rparr>))
      | _ \<Rightarrow> Inr (Inl (error_message ''Net Debt data unavailable'')))))))))))"

text \<open>
  Lines 119-127, the projection loop over \<^verbatim>\<open>range(1, number_of_years+1)\<close>, with the two
  lists it appends to. The loop runs after the checks of lines 62-71, so
  \<^verbatim>\<open>0 <= discount_rate\<close> and the divisor of line 126 is at least 1: the quotient is a
  finite number. Nothing in the loop raises.
\<close>

fun projection_loop ::
  "real \<Rightarrow> real \<Rightarrow> real \<Rightarrow> real \<Rightarrow> int list \<Rightarrow> real list \<times> real list
     \<Rightarrow> py_exn + (real list \<times> real list)" where
  "projection_loop fcf discount_rate growth_rate_1_5 growth_rate_6_20 []
       (projected_fcfs, present_values) = Inr (projected_fcfs, present_values)"
| "projection_loop fcf discount_rate growth_rate_1_5 growth_rate_6_20 (year # years)
       (projected_fcfs, present_values) =
     (let growth_rate = (if year \<le> 5 then growth_rate_1_5 else growth_rate_6_20);
          projected_fcf = fcf * ((1 + growth_rate) ^ nat year);
          present_value = projected_fcf / ((1 + discount_rate) ^ nat year)
      in projection_loop fcf discount_rate growth_rate_1_5 growth_rate_6_20 years
           (projected_fcfs @ [projected_fcf], present_values @ [present_value]))"

text \<open>
  Lines 115-156: the calculations and the result dictionary. The only exception is the
  \<^verbatim>\<open>IndexError\<close> of \<^verbatim>\<open>projected_fcfs[-1]\<close> on an empty list. The divisors of lines 129
  and 130 are not zero after the checks of lines 62-71
  (\<^verbatim>\<open>terminal_growth_rate < discount_rate\<close>, \<^verbatim>\<open>0 <= discount_rate\<close>), so the terminal
  value, its present value, the enterprise value and the equity value are finite numbers.
  The divisors of lines 135, 136, 137 and 154 come from the data and can be zero: these
  four results are \<open>npfloat\<close>s.
\<close>

definition calculations ::
  "facts \<Rightarrow> int \<Rightarrow> real \<Rightarrow> real \<Rightarrow> real \<Rightarrow> real \<Rightarrow> py_exn + pydict" where
  "calculations f number_of_years discount_rate growth_rate_1_5 growth_rate_6_20
       terminal_growth_rate =
     (case projection_loop (free_cash_flow f) discount_rate growth_rate_1_5 growth_rate_6_20
             [1..number_of_years] ([], []) of
        Inl e \<Rightarrow> Inl e
      | Inr (projected_fcfs, present_values) \<Rightarrow>
     (case last_item projected_fcfs of
        Inl e \<Rightarrow> Inl e
      | Inr last_fcf \<Rightarrow>
     (let terminal_value =
            (last_fcf * (1 + terminal_growth_rate)) / (discount_rate - terminal_growth_rate);
          present_value_terminal_value =
            terminal_value / ((1 + discount_rate) ^ nat number_of_years);
          sum_of_pvs = sum_list present_values + present_value_terminal_value;
          enterprise_value = sum_of_pvs;
          equity_value = enterprise_value - net_debt f;
          intrinsic_value_per_share = true_divide equity_value (shares_outstanding f);
          upside_downside =
            np_divide (np_sub_real intrinsic_value_per_share (current_price f))
              (Fin (current_price f));
          fcf_over_tv = true_divide (free_cash_flow f) terminal_value;
          implied_growth_rate =
            np_divide (real_sub_np discount_rate fcf_over_tv) (real_add_np 1 fcf_over_tv);
          price_to_fcf = true_divide (market_cap f) (free_cash_flow f)
      in Inr [(''Intrinsic Value per Share'', pyfloat intrinsic_value_per_share),
              (''Current Share Price'', PNum (current_price f)),
              (''Upside/Downside'', pyfloat upside_downside),
              (''Free Cash Flow'', PNum (free_cash_flow f)),
              (''Market Cap'', PNum (market_cap f)),
              (''Net Debt'', PNum (net_debt f)),
              (''Projected FCFs'', PList projected_fcfs),
              (''Present Values'', PList present_values),
              (''Terminal Value'', PNum terminal_value),
              (''Implied Growth Rate'', pyfloat implied_growth_rate),
              (''Present Value of Terminal Value'', PNum present_value_terminal_value),
              (''Enterprise Value'', PNum enterprise_value),
              (''Equity Value'', PNum equity_value),
              (''Shares Outstanding'', PNum (shares_outstanding f)),
              (''Price to FCF (YoY)'', pyfloat price_to_fcf),
              (''Error Message'', PNone)])))"

text \<open>The keys of the dictionary of lines 139-156.\<close>

definition result_keys :: "string list" where
  "result_keys =
     [''Intrinsic Value per Share'', ''Current Share Price'', ''Upside/Downside'',
      ''Free Cash Flow'', ''Market Cap'', ''Net Debt'', ''Projected FCFs'', ''Present Values'',
      ''Terminal Value'', ''Implied Growth Rate'', ''Present Value of Terminal Value'',
      ''Enterprise Value'', ''Equity Value'', ''Shares Outstanding'', ''Price to FCF (YoY)'',
      ''Error Message'']"

text \<open>Lines 75-156, the body of the \<^verbatim>\<open>try\<close>.\<close>

definition try_body ::
  "(string \<Rightarrow> stock) \<Rightarrow> string \<Rightarrow> int \<Rightarrow> real \<Rightarrow> real \<Rightarrow> real \<Rightarrow> real \<Rightarrow> py_exn + pydict" where
  "try_body yf_Ticker ticker number_of_years discount_rate growth_rate_1_5 growth_rate_6_20
       terminal_growth_rate =
     (case retrieve yf_Ticker ticker of
        Inl e \<Rightarrow> Inl e
      | Inr (Inl d) \<Rightarrow> Inr d
      | Inr (Inr f) \<Rightarrow>
          calculations f number_of_years discount_rate growth_rate_1_5 growth_rate_6_20
            terminal_growth_rate)"

text \<open>Lines 158-159: the handler of the \<^verbatim>\<open>try\<close>.\<close>

definition unexpected_error :: "py_exn \<Rightarrow> pydict" where
  "unexpected_error e = error_message (''An unexpected error occurred: '' @ str_exn e)"

text \<open>Lines 61-159: the function for a ticker that is a string and rates that are numbers.\<close>

definition discounted_cash_flow ::
  "(string \<Rightarrow> stock) \<Rightarrow> string \<Rightarrow> int \<Rightarrow> real \<Rightarrow> real \<Rightarrow> real \<Rightarrow> real \<Rightarrow> pydict outcome" where
  "discounted_cash_flow yf_Ticker ticker number_of_years discount_rate growth_rate_1_5
       growth_rate_6_20 terminal_growth_rate =
     (if \<not> (0 \<le> discount_rate \<and> discount_rate \<le> 1)
      then Raised (ValueError ''Discount rate must be between 0 and 1.'')
      else if \<not> (- 1 \<le> growth_rate_1_5 \<and> growth_rate_1_5 \<le> 2)
      then Raised (ValueError ''Growth rate (1-5) is outside a reasonable range (-1 to 2).'')
      else if \<not> (- 1 \<le> growth_rate_6_20 \<and> growth_rate_6_20 \<le> 2)
      then Raised (ValueError ''Growth rate (6-20) is outside a reasonable range (-1 to 2).'')
      else if \<not> (- 1 \<le> terminal_growth_rate \<and> terminal_growth_rate \<le> 1)
      then Raised (ValueError ''Terminal growth rate is outside a reasonable range (-1 to 1).'')
      else if discount_rate \<le> terminal_growth_rate
      then Raised (ValueError ''Discount rate must be greater than terminal growth rate.'')
      else
        (case try_body yf_Ticker ticker number_of_years discount_rate growth_rate_1_5
                growth_rate_6_20 terminal_growth_rate of
           Inl e \<Rightarrow> Returned (unexpected_error e)
         | Inr d \<Rightarrow> Returned d))"

subsection \<open>sensitivity\_analysis\<close>

text \<open>
  \<^verbatim>\<open>results\<close> is a dictionary of rows, each a dictionary of cells. The inner loop
  writes to \<^verbatim>\<open>results[g1_5]\<close>, the dictionary line 169 has just created, so the model
  passes that row through the inner loop and stores it when the loop ends.

  For a pair with \<^verbatim>\<open>g1_5 < g6_20\<close> line 173 assigns \<^verbatim>\<open>"-"\<close> to the local variable
  \<^verbatim>\<open>dcf_result\<close>, which nothing reads afterwards: the row is left as it is.

  Lines 187-193 are in the body of the handler \<^verbatim>\<open>except Exception\<close>. They read the
  module's global \<^verbatim>\<open>dcf_results\<close> and call the user interface; \<open>handler_rest\<close> is what they
  do: \<open>None\<close> when they complete, \<open>Some e\<close> when they raise \<open>e\<close> (a \<^verbatim>\<open>NameError\<close> when
  \<^verbatim>\<open>dcf_results\<close> is not defined, a \<^verbatim>\<open>KeyError\<close> when it is an error record), and that
  exception leaves the sweep. The handler is entered when the \<^verbatim>\<open>try\<close> raises anything
  but a \<^verbatim>\<open>ValueError\<close>. With the typed arguments of this model the call of line 175
  raises nothing else, so the sweep modelled here does not enter it; a ticker that is not
  a string or a rate that is not a number makes line 57 or 59 raise \<^verbatim>\<open>TypeError\<close> and
  does. (The ranges the module passes at lines 284-287 are arrays of \<^verbatim>\<open>numpy.float64\<close>, a
  subclass of \<^verbatim>\<open>float\<close>: their elements pass the check of line 58.) The global
  \<^verbatim>\<open>number_of_years\<close> is a parameter.
\<close>

definition cell_step ::
  "(string \<Rightarrow> stock) \<Rightarrow> string \<Rightarrow> int \<Rightarrow> real \<Rightarrow> real \<Rightarrow> py_exn option
     \<Rightarrow> real \<Rightarrow> real \<Rightarrow> (real \<rightharpoonup> pyval) \<Rightarrow> py_exn + (real \<rightharpoonup> pyval)" where
  "cell_step yf_Ticker ticker number_of_years discount_rate terminal_growth_rate handler_rest
       g1_5 g6_20 row =
     (if g1_5 < g6_20 then Inr row
      else
        (case discounted_cash_flow yf_Ticker ticker number_of_years discount_rate g1_5 g6_20
                terminal_growth_rate of
           Returned dcf_result \<Rightarrow>
             (if dcf_result \<noteq> [] \<and> ''Intrinsic Value per Share'' \<in> set (map fst dcf_result)
              then (case map_of dcf_result ''Intrinsic Value per Share'' of
                      Some v \<Rightarrow> Inr (row(g6_20 \<mapsto> v))
                    | None \<Rightarrow> Inl (KeyError ''Intrinsic Value per Share''))
              else Inr (row(g6_20 \<mapsto> PNone)))
         | Raised (ValueError m) \<Rightarrow> Inr (row(g6_20 \<mapsto> PNone))
         | Raised e \<Rightarrow>
             (case handler_rest of
                None \<Rightarrow> Inr (row(g6_20 \<mapsto> PNone))
              | Some e' \<Rightarrow> Inl e')))"

fun inner_loop ::
  "(string \<Rightarrow> stock) \<Rightarrow> string \<Rightarrow> int \<Rightarrow> real \<Rightarrow> real \<Rightarrow> py_exn option
     \<Rightarrow> real \<Rightarrow> real list \<Rightarrow> (real \<rightharpoonup> pyval) \<Rightarrow> py_exn + (real \<rightharpoonup> pyval)" where
  "inner_loop yf_Ticker ticker number_of_years discount_rate terminal_growth_rate handler_rest
       g1_5 [] row = Inr row"
| "inner_loop yf_Ticker ticker number_of_years discount_rate terminal_growth_rate handler_rest
       g1_5 (g6_20 # rest) row =
     (case cell_step yf_Ticker ticker number_of_years discount_rate terminal_growth_rate
             handler_rest g1_5 g6_20 row of
        Inl e \<Rightarrow> Inl e
      | Inr row' \<Rightarrow>
          inner_loop yf_Ticker ticker number_of_years discount_rate terminal_growth_rate
            handler_rest g1_5 rest row')"

fun outer_loop ::
  "(string \<Rightarrow> stock) \<Rightarrow> string \<Rightarrow> int \<Rightarrow> real \<Rightarrow> real \<Rightarrow> py_exn option
     \<Rightarrow> real list \<Rightarrow> real list \<Rightarrow> (real \<rightharpoonup> (real \<rightharpoonup> pyval))
     \<Rightarrow> py_exn + (real \<rightharpoonup> (real \<rightharpoonup> pyval))" where
  "outer_loop yf_Ticker ticker number_of_years discount_rate terminal_growth_rate handler_rest
       [] growth_rate_6_20_range results = Inr results"
| "outer_loop yf_Ticker ticker number_of_years discount_rate terminal_growth_rate handler_rest
       (g1_5 # rest) growth_rate_6_20_range results =
     (case inner_loop yf_Ticker ticker number_of_years discount_rate terminal_growth_rate
             handler_rest g1_5 growth_rate_6_20_range Map.empty of
        Inl e \<Rightarrow> Inl e
      | Inr row \<Rightarrow>
          outer_loop yf_Ticker ticker number_of_years discount_rate terminal_growth_rate
            handler_rest rest growth_rate_6_20_range (results(g1_5 \<mapsto> row)))"

text \<open>
  Lines 163-195. The value returned is the dictionary \<^verbatim>\<open>results\<close>, from which line 195
  builds the data frame.
\<close>

definition sensitivity_analysis ::
  "(string \<Rightarrow> stock) \<Rightarrow> int \<Rightarrow> py_exn option \<Rightarrow> string \<Rightarrow> real \<Rightarrow> real list \<Rightarrow> real list \<Rightarrow> real
     \<Rightarrow> (real \<rightharpoonup> (real \<rightharpoonup> pyval)) outcome" where
  "sensitivity_analysis yf_Ticker number_of_years handler_rest ticker discount_rate
       growth_rate_1_5_range growth_rate_6_20_range terminal_growth_rate =
     (case outer_loop yf_Ticker ticker number_of_years discount_rate terminal_growth_rate
             handler_rest growth_rate_1_5_range growth_rate_6_20_range Map.empty of
        Inl e \<Rightarrow> Raised e
      | Inr results \<Rightarrow> Returned results)"

text \<open>
  What lines 175-183 store in the cell of a pair that is not excluded: the intrinsic value
  per share (a number, an infinity or NaN) when the dictionary returned has one,
  \<^verbatim>\<open>None\<close> otherwise and when the call raises.
\<close>

definition stored_cell ::
  "(string \<Rightarrow> stock) \<Rightarrow> string \<Rightarrow> int \<Rightarrow> real \<Rightarrow> real \<Rightarrow> real \<Rightarrow> real \<Rightarrow> pyval" where
  "stored_cell yf_Ticker ticker number_of_years discount_rate terminal_growth_rate g1_5 g6_20 =
     (case discounted_cash_flow yf_Ticker ticker number_of_years discount_rate g1_5 g6_20
             terminal_growth_rate of
        Raised e \<Rightarrow> PNone
      | Returned dcf_result \<Rightarrow>
          (case map_of dcf_result ''Intrinsic Value per Share'' of
             None \<Rightarrow> PNone
           | Some v \<Rightarrow> v))"

subsection \<open>Example inputs\<close>

text \<open>The facts of the specification's end-to-end scenario, as the data source holds them.\<close>

definition example_stock :: stock where
  "example_stock =
     \<lparr> info = Some [(''marketCap'', 200000000000), (''currentPrice'', 150),
                    (''sharesOutstanding'', 1000000000)],
       cashflow = Some [(''Free Cash Flow'', [Some 5000000000])],
       balance_sheet = Some [(''Total Liabilities Net Minority Interest'', [Some 40000000000]),
                             (''Cash And Cash Equivalents'', [Some 10000000000])] \<rparr>"

text \<open>A small company with a free cash flow of one million.\<close>

definition small_stock :: stock where
  "small_stock =
     \<lparr> info = Some [(''marketCap'', 20000000), (''currentPrice'', 10),
                    (''sharesOutstanding'', 1000000)],
       cashflow = Some [(''Free Cash Flow'', [Some 1000000])],
       balance_sheet = Some [(''Total Liabilities'', [Some 3000000]),
                             (''Cash And Cash Equivalents'', [Some 1000000])] \<rparr>"




text \<open>The small company with one figure missing.\<close>

definition no_fcf_stock :: stock where
  "no_fcf_stock = small_stock \<lparr> cashflow := Some [(''Free Cash Flow'', [None])] \<rparr>"

definition no_market_cap_stock :: stock where
  "no_market_cap_stock =
     small_stock \<lparr> info := Some [(''currentPrice'', 10), (''sharesOutstanding'', 1000000)] \<rparr>"

definition no_price_stock :: stock where
  "no_price_stock =
     small_stock \<lparr> info := Some [(''marketCap'', 20000000), (''sharesOutstanding'', 1000000)] \<rparr>"

definition no_liabilities_stock :: stock where
  "no_liabilities_stock =
     small_stock \<lparr> balance_sheet := Some [(''Total Liabilities'', [None]),
                                           (''Cash And Cash Equivalents'', [Some 1000000])] \<rparr>"

definition no_cash_stock :: stock where
  "no_cash_stock =
     small_stock \<lparr> balance_sheet := Some [(''Total Liabilities'', [Some 3000000]),
                                           (''Cash And Cash Equivalents'', [None])] \<rparr>"

definition no_shares_stock :: stock where
  "no_shares_stock =
     small_stock \<lparr> info := Some [(''marketCap'', 20000000), (''currentPrice'', 10)] \<rparr>"

text \<open>What the function returns for them, with the rates and horizons of the examples.\<close>

definition small_valuation :: pydict where
  "small_valuation =
     [(''Intrinsic Value per Share'', PNum (5726 / 327)),
      (''Current Share Price'', PNum 10),
      (''Upside/Downside'', PNum (1228 / 1635)),
      (''Free Cash Flow'', PNum 1000000),
      (''Market Cap'', PNum 20000000),
      (''Net Debt'', PNum 2000000),
      (''Projected FCFs'', PList [1100000, 1210000]),
      (''Present Values'', PList [110000000 / 109, 12100000000 / 11881]),
      (''Terminal Value'', PNum (62315000 / 3)),
      (''Implied Growth Rate'', PNum (52167 / 1306300)),
      (''Present Value of Terminal Value'', PNum (623150000000 / 35643)),
      (''Enterprise Value'', PNum (6380000000 / 327)),
      (''Equity Value'', PNum (5726000000 / 327)),
      (''Shares Outstanding'', PNum 1000000),
      (''Price to FCF (YoY)'', PNum 20),
      (''Error Message'', PNone)]"

definition example_valuation :: pydict where
  "example_valuation =
     [(''Intrinsic Value per Share'', PNum (318479096028865718135 / 4343786558884618778)),
      (''Current Share Price'', PNum 150),
      (''Upside/Downside'', PNum (- (66617777560765419713 / 130313596766538563340))),
      (''Free Cash Flow'', PNum 5000000000),
      (''Market Cap'', PNum 200000000000),
      (''Net Debt'', PNum 30000000000),
      (''Projected FCFs'',
       PList [5500000000, 6050000000, 6655000000, 7320500000, 8052550000, 53603825625 / 8,
              225136067625 / 32, 945571484025 / 128, 3971400232905 / 512,
              16679880978201 / 2048]),
      (''Present Values'',
       PList [550000000000 / 109, 60500000000000 / 11881, 6655000000000000 / 1295029,
              732050000000000000 / 141158161, 80525500000000000000 / 15386239549,
              6700478203125000000000 / 1677100110841,
              703550211328125000000000 / 182803912081669,
              73872772189453125000000000 / 19925626416901921,
              7756641079892578125000000000 / 2171893279442309389,
              814447313388720703125000000000 / 236736367459211723401]),
      (''Terminal Value'', PNum (572675913584901 / 4096)),
      (''Implied Growth Rate'', PNum (3106083222264109 / 59315591358490100)),
      (''Present Value of Terminal Value'',
       PNum (13981345546506372070312500000000 / 236736367459211723401)),
      (''Enterprise Value'', PNum (224396346397702140737500000000 / 2171893279442309389)),
      (''Equity Value'', PNum (159239548014432859067500000000 / 2171893279442309389)),
      (''Shares Outstanding'', PNum 1000000000),
      (''Price to FCF (YoY)'', PNum 40),
      (''Error Message'', PNone)]"

section \<open>Properties\<close>

subsection \<open>The projection loop, the guards, the two stages of the body\<close>

lemma projection_loop_eq:
  "projection_loop fcf dr g1 g2 ys (pf, pvs) =
     Inr (pf @ map (\<lambda>y. fcf * (1 + (if y \<le> 5 then g1 else g2)) ^ nat y) ys,
          pvs @ map (\<lambda>y. fcf * (1 + (if y \<le> 5 then g1 else g2)) ^ nat y / (1 + dr) ^ nat y) ys)"
  by (induction ys arbitrary: pf pvs) (simp_all add: Let_def)

lemma dcf_valid_rates:
  assumes "0 \<le> dr" "dr \<le> 1" "- 1 \<le> g1" "g1 \<le> 2" "- 1 \<le> g2" "g2 \<le> 2"
    "- 1 \<le> tg" "tg \<le> 1" "tg < dr"
  shows "discounted_cash_flow yf t n dr g1 g2 tg =
     (case try_body yf t n dr g1 g2 tg of
        Inl e \<Rightarrow> Returned (unexpected_error e) | Inr d \<Rightarrow> Returned d)"
  using assms by (simp add: discounted_cash_flow_def)

lemma dcf_Returned_valid:
  assumes "discounted_cash_flow yf t n dr g1 g2 tg = Returned d"
  shows "0 \<le> dr \<and> dr \<le> 1 \<and> - 1 \<le> g1 \<and> g1 \<le> 2 \<and> - 1 \<le> g2 \<and> g2 \<le> 2 \<and>
    - 1 \<le> tg \<and> tg \<le> 1 \<and> tg < dr"
  using assms by (simp add: discounted_cash_flow_def split: if_splits)

lemma calculations_Inr:
  assumes "calculations f n dr g1 g2 tg = Inr d"
  obtains pf pvs tv pvtv eqv iv where
    "pf = map (\<lambda>y. free_cash_flow f * (1 + (if y \<le> 5 then g1 else g2)) ^ nat y) [1..n]"
    "pvs = map (\<lambda>y. free_cash_flow f * (1 + (if y \<le> 5 then g1 else g2)) ^ nat y / (1 + dr) ^ nat y) [1..n]"
    "pf \<noteq> []" "tv = last pf * (1 + tg) / (dr - tg)"
    "pvtv = tv / (1 + dr) ^ nat n"
    "eqv = sum_list pvs + pvtv - net_debt f"
    "iv = true_divide eqv (shares_outstanding f)"
    "d = [(''Intrinsic Value per Share'', pyfloat iv),
          (''Current Share Price'', PNum (current_price f)),
          (''Upside/Downside'',
             pyfloat (np_divide (np_sub_real iv (current_price f)) (Fin (current_price f)))),
          (''Free Cash Flow'', PNum (free_cash_flow f)),
          (''Market Cap'', PNum (market_cap f)),
          (''Net Debt'', PNum (net_debt f)),
          (''Projected FCFs'', PList pf),
          (''Present Values'', PList pvs),
          (''Terminal Value'', PNum tv),
          (''Implied Growth Rate'',
             pyfloat (np_divide (real_sub_np dr (true_divide (free_cash_flow f) tv))
                        (real_add_np 1 (true_divide (free_cash_flow f) tv)))),
          (''Present Value of Terminal Value'', PNum pvtv),
          (''Enterprise Value'', PNum (sum_list pvs + pvtv)),
          (''Equity Value'', PNum eqv),
          (''Shares Outstanding'', PNum (shares_outstanding f)),
          (''Price to FCF (YoY)'', pyfloat (true_divide (market_cap f) (free_cash_flow f))),
          (''Error Message'', PNone)]"
  using assms that
  unfolding calculations_def projection_loop_eq last_item_def Let_def
  by (simp split: if_splits)



lemma retrieve_Inl:
  "retrieve yf t = Inr (Inl d) \<Longrightarrow> \<exists>m. d = error_message m"
  unfolding retrieve_def Let_def
  by (auto split: option.splits if_splits sum.splits prod.splits)

lemma retrieve_Inr:
  assumes "retrieve yf t = Inr (Inr f)"
  shows "\<exists>i cf bs. info (yf t) = Some i \<and> cashflow (yf t) = Some cf \<and> balance_sheet (yf t) = Some bs \<and>
     loc_iloc0 cf ''Free Cash Flow'' = Inr (Some (free_cash_flow f)) \<and>
     map_of i ''marketCap'' = Some (market_cap f) \<and>
     map_of i ''currentPrice'' = Some (current_price f) \<and>
     total_liabilities_of bs = Inr (Some (total_liabilities f)) \<and>
     loc_iloc0 bs ''Cash And Cash Equivalents'' = Inr (Some (cash_and_equivalents f)) \<and>
     map_of i ''sharesOutstanding'' = Some (shares_outstanding f) \<and>
     net_debt f = total_liabilities f - cash_and_equivalents f"
  using assms unfolding retrieve_def Let_def
  by (auto split: option.splits if_splits sum.splits prod.splits)

lemma try_body_Inr:
  assumes "try_body yf t n dr g1 g2 tg = Inr d"
  shows "(\<exists>m. d = error_message m) \<or> (\<exists>f. retrieve yf t = Inr (Inr f) \<and> calculations f n dr g1 g2 tg = Inr d)"
  using assms retrieve_Inl[of yf t] unfolding try_body_def
  by (auto split: sum.splits)

lemma dcf_Returned_cases:
  assumes "discounted_cash_flow yf t n dr g1 g2 tg = Returned d"
  shows "(\<exists>e. d = unexpected_error e) \<or> (\<exists>m. d = error_message m) \<or>
    (\<exists>f. retrieve yf t = Inr (Inr f) \<and> calculations f n dr g1 g2 tg = Inr d)"
proof -
  from dcf_Returned_valid[OF assms] dcf_valid_rates[of dr g1 g2 tg yf t n] assms
  have c: "(case try_body yf t n dr g1 g2 tg of
        Inl e \<Rightarrow> Returned (unexpected_error e) | Inr d \<Rightarrow> Returned d) = Returned d"
    by simp
  show ?thesis
  proof (cases "try_body yf t n dr g1 g2 tg")
    case (Inl e)
    with c show ?thesis by auto
  next
    case (Inr d')
    with c have "d' = d" by simp
    with Inr try_body_Inr[of yf t n dr g1 g2 tg d] show ?thesis by blast
  qed
qed

lemma dcf_success:
  assumes "discounted_cash_flow yf t n dr g1 g2 tg = Returned d"
    and "map_of d ''Error Message'' = Some PNone"
  shows "\<exists>f. retrieve yf t = Inr (Inr f) \<and> calculations f n dr g1 g2 tg = Inr d"
  using dcf_Returned_cases[OF assms(1)] assms(2)
  by (auto simp: unexpected_error_def error_message_def)


subsection \<open>Evaluation at the example inputs\<close>

lemmas np_arith =
  true_divide_def np_divide_def np_sub_real_def real_sub_np_def real_add_np_def pyfloat_def

lemma retrieve_small:
  "retrieve (\<lambda>t. small_stock) t =
     Inr (Inr \<lparr> free_cash_flow = 1000000, market_cap = 20000000, current_price = 10,
                total_liabilities = 3000000, cash_and_equivalents = 1000000,
                net_debt = 2000000, shares_outstanding = 1000000 \<rparr>)"
  by (simp add: retrieve_def small_stock_def df_empty_def loc_iloc0_def
      total_liabilities_of_def)

lemma retrieve_example:
  "retrieve (\<lambda>t. example_stock) t =
     Inr (Inr \<lparr> free_cash_flow = 5000000000, market_cap = 200000000000, current_price = 150,
                total_liabilities = 40000000000, cash_and_equivalents = 10000000000,
                net_debt = 30000000000, shares_outstanding = 1000000000 \<rparr>)"
  by (simp add: retrieve_def example_stock_def df_empty_def loc_iloc0_def
      total_liabilities_of_def)

lemma calculations_small:
  "calculations
     \<lparr> free_cash_flow = 1000000, market_cap = 20000000, current_price = 10,
       total_liabilities = 3000000, cash_and_equivalents = 1000000,
       net_debt = 2000000, shares_outstanding = 1000000 \<rparr>
     2 (9/100) (1/10) (1/20) (3/100) = Inr small_valuation"
  by (simp add: calculations_def np_arith last_item_def Let_def upto_rec1 nat_numeral
      power_divide small_valuation_def)

lemma calculations_example:
  "calculations
     \<lparr> free_cash_flow = 5000000000, market_cap = 200000000000, current_price = 150,
       total_liabilities = 40000000000, cash_and_equivalents = 10000000000,
       net_debt = 30000000000, shares_outstanding = 1000000000 \<rparr>
     10 (9/100) (1/10) (1/20) (3/100) = Inr example_valuation"
  by (simp add: calculations_def np_arith last_item_def Let_def upto_rec1 nat_numeral
      power_divide example_valuation_def)

lemma dcf_small:
  "discounted_cash_flow (\<lambda>t. small_stock) ''SMALL'' 2 (9/100) (1/10) (1/20) (3/100) =
     Returned small_valuation"
  by (simp add: discounted_cash_flow_def try_body_def retrieve_small calculations_small)

lemma dcf_example:
  "discounted_cash_flow (\<lambda>t. example_stock) ''EXAMPLE'' 10 (9/100) (1/10) (1/20) (3/100) =
     Returned example_valuation"
  by (simp add: discounted_cash_flow_def try_body_def retrieve_example calculations_example)








subsection \<open>A horizon that is not positive\<close>

text \<open>
  Claim C9. When \<^verbatim>\<open>number_of_years\<close> is zero or negative, the rates pass the five checks
  and the data retrieval yields the company's figures, nothing rejects the horizon: the
  projection loop runs over an empty range and leaves both lists empty, \<^verbatim>\<open>projected_fcfs[-1]\<close>
  raises \<^verbatim>\<open>IndexError\<close>, and the function returns the record of the catch-all handler,
  not a validation error.
\<close>

theorem nonpositive_horizon_generic_error:
  assumes "n \<le> 0"
    and "0 \<le> dr" "dr \<le> 1" "- 1 \<le> g1" "g1 \<le> 2" "- 1 \<le> g2" "g2 \<le> 2"
    "- 1 \<le> tg" "tg \<le> 1" "tg < dr"
    and "retrieve yf t = Inr (Inr f)"
  shows "projection_loop (free_cash_flow f) dr g1 g2 [1..n] ([], []) = Inr ([], []) \<and>
    last_item [] = Inl (IndexError ''list index out of range'') \<and>
    discounted_cash_flow yf t n dr g1 g2 tg =
      Returned [(''Error Message'',
        PStr ''An unexpected error occurred: list index out of range'')]"
proof -
  have u: "[1..n] = []" using assms(1) by simp
  have c: "calculations f n dr g1 g2 tg = Inl (IndexError ''list index out of range'')"
    by (simp add: calculations_def u last_item_def)
  have "try_body yf t n dr g1 g2 tg = Inl (IndexError ''list index out of range'')"
    by (simp add: try_body_def assms(11) c)
  then show ?thesis
    using dcf_valid_rates[OF assms(2-10), of yf t n]
    by (simp add: u last_item_def unexpected_error_def error_message_def)
qed

theorem nonpositive_horizon_generic_error_witness:
  "discounted_cash_flow (\<lambda>t. small_stock) ''SMALL'' 0 (9/100) (1/10) (1/20) (3/100) =
     Returned [(''Error Message'',
       PStr ''An unexpected error occurred: list index out of range'')]"
  using nonpositive_horizon_generic_error[of 0 "9/100" "1/10" "1/20" "3/100"
      "\<lambda>t. small_stock" "''SMALL''", OF _ _ _ _ _ _ _ _ _ _ retrieve_small]
  by simp

subsection \<open>The key \<^verbatim>\<open>Error Message\<close>\<close>

text \<open>
  Claim C10. Every dictionary the function returns has the key \<^verbatim>\<open>Error Message\<close>. Its
  value is \<^verbatim>\<open>None\<close> exactly when the dictionary has the sixteen keys of a complete
  valuation; otherwise the dictionary is that one key with a message, and holds no
  valuation field.
\<close>

theorem error_message_key_invariant:
  assumes "discounted_cash_flow yf t n dr g1 g2 tg = Returned d"
  shows "(\<exists>v. map_of d ''Error Message'' = Some v) \<and>
    (map_of d ''Error Message'' = Some PNone \<longleftrightarrow> map fst d = result_keys) \<and>
    (map_of d ''Error Message'' \<noteq> Some PNone \<longrightarrow> (\<exists>m. d = [(''Error Message'', PStr m)]))"
proof -
  from dcf_Returned_cases[OF assms]
  consider m where "d = error_message m"
    | f where "calculations f n dr g1 g2 tg = Inr d"
    by (auto simp: unexpected_error_def)
  then show ?thesis
  proof cases
    case 1
    then show ?thesis by (simp add: error_message_def result_keys_def)
  next
    case 2
    have "map fst d = result_keys \<and> map_of d ''Error Message'' = Some PNone"
      by (rule calculations_Inr[OF 2]) (simp add: result_keys_def)
    then show ?thesis by simp
  qed
qed

theorem error_message_key_invariant_witness:
  "discounted_cash_flow (\<lambda>t. small_stock) ''SMALL'' (- 1) (9/100) (1/10) (1/20) (3/100) =
     Returned [(''Error Message'',
       PStr ''An unexpected error occurred: list index out of range'')] \<and>
   map_of [(''Error Message'',
       PStr ''An unexpected error occurred: list index out of range'')] ''Error Message''
     \<noteq> Some PNone \<and>
   map fst [(''Error Message'',
       PStr ''An unexpected error occurred: list index out of range'')] \<noteq> result_keys"
proof -
  have u: "[1..- 1] = []" by simp
  have e: "discounted_cash_flow (\<lambda>t. small_stock) ''SMALL'' (- 1) (9/100) (1/10) (1/20) (3/100) =
     Returned [(''Error Message'',
       PStr ''An unexpected error occurred: list index out of range'')]"
    by (simp add: discounted_cash_flow_def try_body_def retrieve_small calculations_def
        last_item_def unexpected_error_def error_message_def)
  from error_message_key_invariant[OF e] e show ?thesis by simp
qed

subsection \<open>The projection\<close>

lemma nth_years:
  "1 \<le> year \<Longrightarrow> year \<le> n \<Longrightarrow> map f [1..n] ! nat (year - 1) = f year"
  by (simp add: nth_upto)

lemma calculations_lists:
  assumes "calculations f n dr g1 g2 tg = Inr d"
  shows "map_of d ''Projected FCFs'' =
      Some (PList (map (\<lambda>y. free_cash_flow f * (1 + (if y \<le> 5 then g1 else g2)) ^ nat y) [1..n]))"
    and "map_of d ''Present Values'' =
      Some (PList (map (\<lambda>y. free_cash_flow f * (1 + (if y \<le> 5 then g1 else g2)) ^ nat y
                 / (1 + dr) ^ nat y) [1..n]))"
    and "map_of d ''Free Cash Flow'' = Some (PNum (free_cash_flow f))"
  by (rule calculations_Inr[OF assms], simp)+

text \<open>
  Claim C1. In every successful valuation the projected free cash flow of year \<open>year\<close>,
  for \<open>year\<close> from 1 to \<^verbatim>\<open>number_of_years\<close>, is the base free cash flow times
  \<open>(1 + g) ^ year\<close>, where \<open>g\<close> is \<^verbatim>\<open>growth_rate_1_5\<close> up to year 5 and
  \<^verbatim>\<open>growth_rate_6_20\<close> after it: each year is compounded from the base figure, not from
  the year before. The present value of the year is that projection divided by
  \<open>(1 + discount_rate) ^ year\<close>. Numbers are real numbers here; the floating-point
  results of the program are approximations of them. The witness is the example of the
  specification: a base of 1,000,000 growing at 0.10 gives 1,100,000 and 1,210,000.
\<close>

theorem projected_fcf_compounded_from_base:
  assumes "discounted_cash_flow yf t n dr g1 g2 tg = Returned d"
    and "map_of d ''Error Message'' = Some PNone"
  shows "\<exists>f pf pvs. retrieve yf t = Inr (Inr f) \<and>
    map_of d ''Free Cash Flow'' = Some (PNum (free_cash_flow f)) \<and>
    map_of d ''Projected FCFs'' = Some (PList pf) \<and>
    map_of d ''Present Values'' = Some (PList pvs) \<and>
    length pf = nat n \<and> length pvs = nat n \<and> 1 + dr \<noteq> 0 \<and>
    (\<forall>year. 1 \<le> year \<and> year \<le> n \<longrightarrow>
       pf ! nat (year - 1) =
         free_cash_flow f * (1 + (if year \<le> 5 then g1 else g2)) ^ nat year \<and>
       pvs ! nat (year - 1) = pf ! nat (year - 1) / (1 + dr) ^ nat year)"
proof -
  from dcf_Returned_valid[OF assms(1)] have dr: "0 \<le> dr" by simp
  from dcf_success[OF assms] obtain f where
    r: "retrieve yf t = Inr (Inr f)" and c: "calculations f n dr g1 g2 tg = Inr d"
    by blast
  define pf where
    "pf = map (\<lambda>y. free_cash_flow f * (1 + (if y \<le> 5 then g1 else g2)) ^ nat y) [1..n]"
  define pvs where
    "pvs = map (\<lambda>y. free_cash_flow f * (1 + (if y \<le> 5 then g1 else g2)) ^ nat y
                 / (1 + dr) ^ nat y) [1..n]"
  have m1: "map_of d ''Projected FCFs'' = Some (PList pf)"
    unfolding pf_def by (rule calculations_lists(1)[OF c])
  have m2: "map_of d ''Present Values'' = Some (PList pvs)"
    unfolding pvs_def by (rule calculations_lists(2)[OF c])
  have len: "length pf = nat n" "length pvs = nat n"
    by (simp_all add: pf_def pvs_def)
  have yr: "pf ! nat (year - 1) =
         free_cash_flow f * (1 + (if year \<le> 5 then g1 else g2)) ^ nat year \<and>
       pvs ! nat (year - 1) = pf ! nat (year - 1) / (1 + dr) ^ nat year"
    if "1 \<le> year" "year \<le> n" for year
    unfolding pf_def pvs_def nth_years[OF that] by simp
  from dr have nz: "1 + dr \<noteq> 0" by simp
  note m0 = calculations_lists(3)[OF c]
  show ?thesis
    apply (rule exI[of _ f], rule exI[of _ pf], rule exI[of _ pvs])
    using r m0 m1 m2 len yr nz by simp
qed

theorem projected_fcf_compounded_from_base_witness:
  "\<exists>d pf pvs.
     discounted_cash_flow (\<lambda>t. small_stock) ''SMALL'' 2 (9/100) (1/10) (1/20) (3/100)
       = Returned d \<and>
     map_of d ''Error Message'' = Some PNone \<and>
     map_of d ''Free Cash Flow'' = Some (PNum 1000000) \<and>
     map_of d ''Projected FCFs'' = Some (PList pf) \<and>
     map_of d ''Present Values'' = Some (PList pvs) \<and>
     length pf = 2 \<and> pf ! 0 = 1100000 \<and> pf ! 1 = 1210000 \<and>
     length pvs = 2 \<and> pvs ! 0 = 1100000 / (1 + 9/100) \<and>
     pvs ! 1 = 1210000 / (1 + 9/100)\<^sup>2"
proof -
  have m: "map_of small_valuation ''Error Message'' = Some PNone"
    and b: "map_of small_valuation ''Free Cash Flow'' = Some (PNum 1000000)"
    by (simp_all add: small_valuation_def)
  from projected_fcf_compounded_from_base[OF dcf_small m] obtain f pf pvs where
    r: "retrieve (\<lambda>t. small_stock) ''SMALL'' = Inr (Inr f)" and
    p: "map_of small_valuation ''Projected FCFs'' = Some (PList pf)"
       "map_of small_valuation ''Present Values'' = Some (PList pvs)" and
    l: "length pf = nat 2" "length pvs = nat 2" and
    y: "\<And>year. 1 \<le> year \<and> year \<le> 2 \<Longrightarrow>
       pf ! nat (year - 1) =
         free_cash_flow f * (1 + (if year \<le> 5 then 1/10 else 1/20)) ^ nat year \<and>
       pvs ! nat (year - 1) = pf ! nat (year - 1) / (1 + 9/100) ^ nat year"
    by blast
  from r have f: "free_cash_flow f = 1000000" by (auto simp add: retrieve_small)
  from y[of 1] f have y1: "pf ! 0 = 1100000" "pvs ! 0 = 1100000 / (1 + 9/100)" by simp_all
  from y[of 2] f have y2: "pf ! 1 = 1210000" "pvs ! 1 = 1210000 / (1 + 9/100)\<^sup>2"
    by (simp_all add: power2_eq_square)
  show ?thesis
    apply (rule exI[of _ small_valuation], rule exI[of _ pf], rule exI[of _ pvs])
    apply (rule conjI[OF dcf_small])
    using m b p l y1 y2 by simp
qed

subsection \<open>Terminal value, enterprise value, equity value\<close>

text \<open>
  Claim C6. In every successful valuation the terminal value is the last projected cash
  flow times \<open>1 + terminal_growth_rate\<close> over \<open>discount_rate - terminal_growth_rate\<close>;
  its present value divides it by \<open>(1 + discount_rate) ^ number_of_years\<close>; the
  enterprise value is the sum of the present values plus that; the equity value subtracts
  the net debt, which is total liabilities minus cash and equivalents. These two divisors
  are not zero after the checks of the rates. When the shares outstanding are not zero the
  intrinsic value per share is the equity value divided by them; when the current price
  is not zero either, the upside is the intrinsic value minus the current price, over the
  current price.
\<close>

theorem valuation_formulas:
  assumes "discounted_cash_flow yf t n dr g1 g2 tg = Returned d"
    and "map_of d ''Error Message'' = Some PNone"
  shows "\<exists>f pf pvs tv pvtv ev eqv.
    retrieve yf t = Inr (Inr f) \<and>
    map_of d ''Projected FCFs'' = Some (PList pf) \<and> pf \<noteq> [] \<and>
    map_of d ''Present Values'' = Some (PList pvs) \<and>
    map_of d ''Terminal Value'' = Some (PNum tv) \<and>
    dr - tg \<noteq> 0 \<and> tv = last pf * (1 + tg) / (dr - tg) \<and>
    map_of d ''Present Value of Terminal Value'' = Some (PNum pvtv) \<and>
    1 + dr \<noteq> 0 \<and> pvtv = tv / (1 + dr) ^ nat n \<and>
    map_of d ''Enterprise Value'' = Some (PNum ev) \<and> ev = sum_list pvs + pvtv \<and>
    map_of d ''Net Debt'' = Some (PNum (net_debt f)) \<and>
    net_debt f = total_liabilities f - cash_and_equivalents f \<and>
    map_of d ''Equity Value'' = Some (PNum eqv) \<and> eqv = ev - net_debt f \<and>
    (shares_outstanding f \<noteq> 0 \<longrightarrow>
       map_of d ''Intrinsic Value per Share'' = Some (PNum (eqv / shares_outstanding f))) \<and>
    (shares_outstanding f \<noteq> 0 \<and> current_price f \<noteq> 0 \<longrightarrow>
       map_of d ''Upside/Downside'' =
         Some (PNum ((eqv / shares_outstanding f - current_price f) / current_price f)))"
proof -
  from dcf_Returned_valid[OF assms(1)] have dr: "0 \<le> dr" and d0: "dr - tg \<noteq> 0" by simp_all
  from dr have nz: "1 + dr \<noteq> 0" by simp
  from dcf_success[OF assms] obtain f where
    r: "retrieve yf t = Inr (Inr f)" and c: "calculations f n dr g1 g2 tg = Inr d"
    by blast
  from retrieve_Inr[OF r]
  have nd: "net_debt f = total_liabilities f - cash_and_equivalents f" by blast
  show ?thesis
  proof (rule calculations_Inr[OF c])
    fix pf pvs :: "real list" and tv pvtv eqv :: real and iv :: npfloat
    assume ne: "pf \<noteq> []"
      and tv: "tv = last pf * (1 + tg) / (dr - tg)"
      and pvtv: "pvtv = tv / (1 + dr) ^ nat n"
      and eqv: "eqv = sum_list pvs + pvtv - net_debt f"
      and iv: "iv = true_divide eqv (shares_outstanding f)"
      and d: "d = [(''Intrinsic Value per Share'', pyfloat iv),
          (''Current Share Price'', PNum (current_price f)),
          (''Upside/Downside'',
             pyfloat (np_divide (np_sub_real iv (current_price f)) (Fin (current_price f)))),
          (''Free Cash Flow'', PNum (free_cash_flow f)),
          (''Market Cap'', PNum (market_cap f)),
          (''Net Debt'', PNum (net_debt f)),
          (''Projected FCFs'', PList pf),
          (''Present Values'', PList pvs),
          (''Terminal Value'', PNum tv),
          (''Implied Growth Rate'',
             pyfloat (np_divide (real_sub_np dr (true_divide (free_cash_flow f) tv))
                        (real_add_np 1 (true_divide (free_cash_flow f) tv)))),
          (''Present Value of Terminal Value'', PNum pvtv),
          (''Enterprise Value'', PNum (sum_list pvs + pvtv)),
          (''Equity Value'', PNum eqv),
          (''Shares Outstanding'', PNum (shares_outstanding f)),
          (''Price to FCF (YoY)'', pyfloat (true_divide (market_cap f) (free_cash_flow f))),
          (''Error Message'', PNone)]"
    have l: "map_of d ''Projected FCFs'' = Some (PList pf)"
      "map_of d ''Present Values'' = Some (PList pvs)"
      "map_of d ''Terminal Value'' = Some (PNum tv)"
      "map_of d ''Present Value of Terminal Value'' = Some (PNum pvtv)"
      "map_of d ''Enterprise Value'' = Some (PNum (sum_list pvs + pvtv))"
      "map_of d ''Net Debt'' = Some (PNum (net_debt f))"
      "map_of d ''Equity Value'' = Some (PNum eqv)"
      unfolding d by simp_all
    have i: "map_of d ''Intrinsic Value per Share'' = Some (PNum (eqv / shares_outstanding f))"
      if "shares_outstanding f \<noteq> 0"
      unfolding d iv using that by (simp add: np_arith)
    have u: "map_of d ''Upside/Downside'' =
         Some (PNum ((eqv / shares_outstanding f - current_price f) / current_price f))"
      if "shares_outstanding f \<noteq> 0 \<and> current_price f \<noteq> 0"
      unfolding d iv using that by (simp add: np_arith)
    show ?thesis
      apply (rule exI[of _ f], rule exI[of _ pf], rule exI[of _ pvs], rule exI[of _ tv],
          rule exI[of _ pvtv], rule exI[of _ "sum_list pvs + pvtv"], rule exI[of _ eqv])
      using r l ne d0 tv pvtv eqv nd nz i u by simp
  qed
qed

theorem valuation_formulas_witness:
  "\<exists>d iv.
     discounted_cash_flow (\<lambda>t. example_stock) ''EXAMPLE'' 10 (9/100) (1/10) (1/20) (3/100)
       = Returned d \<and>
     map_of d ''Error Message'' = Some PNone \<and>
     map_of d ''Net Debt'' = Some (PNum (40000000000 - 10000000000)) \<and>
     map_of d ''Intrinsic Value per Share'' = Some (PNum iv) \<and> 0 < iv \<and>
     map_of d ''Upside/Downside'' = Some (PNum ((iv - 150) / 150))"
proof -
  have m: "map_of example_valuation ''Error Message'' = Some PNone"
    by (simp add: example_valuation_def)
  from valuation_formulas[OF dcf_example m] obtain f eqv where
    r: "retrieve (\<lambda>t. example_stock) ''EXAMPLE'' = Inr (Inr f)" and
    nd: "map_of example_valuation ''Net Debt'' = Some (PNum (net_debt f))"
      "net_debt f = total_liabilities f - cash_and_equivalents f" and
    iv: "shares_outstanding f \<noteq> 0 \<longrightarrow>
      map_of example_valuation ''Intrinsic Value per Share'' =
        Some (PNum (eqv / shares_outstanding f))" and
    ud: "shares_outstanding f \<noteq> 0 \<and> current_price f \<noteq> 0 \<longrightarrow>
      map_of example_valuation ''Upside/Downside'' =
        Some (PNum ((eqv / shares_outstanding f - current_price f) / current_price f))"
    by blast
  from r have f: "total_liabilities f = 40000000000" "cash_and_equivalents f = 10000000000"
    "current_price f = 150" "shares_outstanding f = 1000000000"
    by (auto simp add: retrieve_example)
  define v where "v = eqv / shares_outstanding f"
  from iv f have i: "map_of example_valuation ''Intrinsic Value per Share'' = Some (PNum v)"
    by (simp add: v_def)
  from ud f have u: "map_of example_valuation ''Upside/Downside'' = Some (PNum ((v - 150) / 150))"
    by (simp add: v_def)
  from i have pos: "0 < v" by (simp add: example_valuation_def)
  show ?thesis
    apply (rule exI[of _ example_valuation], rule exI[of _ v])
    apply (rule conjI[OF dcf_example])
    using m nd i u f pos by simp
qed

subsection \<open>The five checks of the rates\<close>

text \<open>
  Claim C5, as amended. The five checks run in the order discount rate, growth rate of
  years 1-5, growth rate of years 6-20, terminal growth rate, ordering; the function raises
  the \<^verbatim>\<open>ValueError\<close> of the first check that fails, whatever the data source, the ticker
  and the horizon are, so before anything is retrieved, projected or discounted. The
  ordering error is raised when the four ranges hold and the discount rate does not exceed
  the terminal growth rate. The five messages differ.
\<close>

theorem validation_first_failed_check:
  "(\<not> (0 \<le> dr \<and> dr \<le> 1) \<longrightarrow>
      discounted_cash_flow yf t n dr g1 g2 tg =
        Raised (ValueError ''Discount rate must be between 0 and 1.'')) \<and>
   (0 \<le> dr \<and> dr \<le> 1 \<and> \<not> (- 1 \<le> g1 \<and> g1 \<le> 2) \<longrightarrow>
      discounted_cash_flow yf t n dr g1 g2 tg =
        Raised (ValueError ''Growth rate (1-5) is outside a reasonable range (-1 to 2).'')) \<and>
   (0 \<le> dr \<and> dr \<le> 1 \<and> - 1 \<le> g1 \<and> g1 \<le> 2 \<and> \<not> (- 1 \<le> g2 \<and> g2 \<le> 2) \<longrightarrow>
      discounted_cash_flow yf t n dr g1 g2 tg =
        Raised (ValueError ''Growth rate (6-20) is outside a reasonable range (-1 to 2).'')) \<and>
   (0 \<le> dr \<and> dr \<le> 1 \<and> - 1 \<le> g1 \<and> g1 \<le> 2 \<and> - 1 \<le> g2 \<and> g2 \<le> 2 \<and>
      \<not> (- 1 \<le> tg \<and> tg \<le> 1) \<longrightarrow>
      discounted_cash_flow yf t n dr g1 g2 tg =
        Raised (ValueError ''Terminal growth rate is outside a reasonable range (-1 to 1).'')) \<and>
   (0 \<le> dr \<and> dr \<le> 1 \<and> - 1 \<le> g1 \<and> g1 \<le> 2 \<and> - 1 \<le> g2 \<and> g2 \<le> 2 \<and>
      - 1 \<le> tg \<and> tg \<le> 1 \<and> dr \<le> tg \<longrightarrow>
      discounted_cash_flow yf t n dr g1 g2 tg =
        Raised (ValueError ''Discount rate must be greater than terminal growth rate.'')) \<and>
   distinct [''Discount rate must be between 0 and 1.'',
     ''Growth rate (1-5) is outside a reasonable range (-1 to 2).'',
     ''Growth rate (6-20) is outside a reasonable range (-1 to 2).'',
     ''Terminal growth rate is outside a reasonable range (-1 to 1).'',
     ''Discount rate must be greater than terminal growth rate.'']"
  by (simp add: discounted_cash_flow_def)

theorem validation_first_failed_check_witness:
  "discounted_cash_flow (\<lambda>t. example_stock) ''EXAMPLE'' 10 (3/2) (1/10) (1/20) (3/100) =
     Raised (ValueError ''Discount rate must be between 0 and 1.'') \<and>
   discounted_cash_flow (\<lambda>t. example_stock) ''EXAMPLE'' 10 (9/100) 3 (1/20) (3/100) =
     Raised (ValueError ''Growth rate (1-5) is outside a reasonable range (-1 to 2).'') \<and>
   discounted_cash_flow (\<lambda>t. example_stock) ''EXAMPLE'' 10 (9/100) (1/10) (- 2) (3/100) =
     Raised (ValueError ''Growth rate (6-20) is outside a reasonable range (-1 to 2).'') \<and>
   discounted_cash_flow (\<lambda>t. example_stock) ''EXAMPLE'' 10 (9/100) (1/10) (1/20) (- 3/2) =
     Raised (ValueError ''Terminal growth rate is outside a reasonable range (-1 to 1).'') \<and>
   discounted_cash_flow (\<lambda>t. example_stock) ''EXAMPLE'' 10 (3/100) (1/10) (1/20) (3/100) =
     Raised (ValueError ''Discount rate must be greater than terminal growth rate.'')"
  using
    validation_first_failed_check[of "3/2" "\<lambda>t. example_stock" "''EXAMPLE''" 10
      "1/10" "1/20" "3/100"]
    validation_first_failed_check[of "9/100" "\<lambda>t. example_stock" "''EXAMPLE''" 10
      "3" "1/20" "3/100"]
    validation_first_failed_check[of "9/100" "\<lambda>t. example_stock" "''EXAMPLE''" 10
      "1/10" "- 2" "3/100"]
    validation_first_failed_check[of "9/100" "\<lambda>t. example_stock" "''EXAMPLE''" 10
      "1/10" "1/20" "- 3/2"]
    validation_first_failed_check[of "3/100" "\<lambda>t. example_stock" "''EXAMPLE''" 10
      "1/10" "1/20" "3/100"]
  by simp

text \<open>
  Claim C5 as stated fails: with a discount rate of 0.5 below a terminal growth rate of 0.9
  and a growth rate of 5 for years 1-5, the error is the one of the growth rate, not the
  ordering error.
\<close>

theorem ordering_error_depends_on_growth_rate:
  "(1/2 :: real) \<le> 9/10 \<and>
   discounted_cash_flow (\<lambda>t. example_stock) ''EXAMPLE'' 10 (1/2) 5 (1/20) (9/10) =
     Raised (ValueError ''Growth rate (1-5) is outside a reasonable range (-1 to 2).'') \<and>
   discounted_cash_flow (\<lambda>t. example_stock) ''EXAMPLE'' 10 (1/2) 5 (1/20) (9/10) \<noteq>
     Raised (ValueError ''Discount rate must be greater than terminal growth rate.'')"
  by (simp add: discounted_cash_flow_def)

subsection \<open>What is raised and what is returned\<close>




subsection \<open>A free cash flow of zero\<close>




subsection \<open>Missing figures\<close>

text \<open>
  Claim C8, as amended. With rates that pass the checks, an \<^verbatim>\<open>info\<close> dictionary and two
  data frames that are not empty and have the rows the function reads: the function
  returns a record whose message names the first figure that is missing, in the order free
  cash flow, market capitalisation, current price, net debt, shares outstanding, and
  substitutes no default. A missing total-liabilities figure and a missing cash figure
  give the same message, \<^verbatim>\<open>Net Debt data unavailable\<close>; the five messages differ from one
  another. A figure is missing when its cell is NaN or \<^verbatim>\<open>info\<close> has no entry for it.
\<close>

theorem missing_figure_messages:
  assumes "0 \<le> dr" "dr \<le> 1" "- 1 \<le> g1" "g1 \<le> 2" "- 1 \<le> g2" "g2 \<le> 2"
    "- 1 \<le> tg" "tg \<le> 1" "tg < dr"
    and "info (yf t) = Some i" "i \<noteq> []"
    and "cashflow (yf t) = Some cf" "\<not> df_empty cf"
    and "balance_sheet (yf t) = Some bs" "\<not> df_empty bs"
    and "loc_iloc0 cf ''Free Cash Flow'' = Inr fcf"
    and "total_liabilities_of bs = Inr liabilities"
    and "loc_iloc0 bs ''Cash And Cash Equivalents'' = Inr cash"
  shows "(fcf = None \<longrightarrow>
      discounted_cash_flow yf t n dr g1 g2 tg =
        Returned [(''Error Message'', PStr ''Free Cash Flow data unavailable.'')]) \<and>
    (fcf \<noteq> None \<and> map_of i ''marketCap'' = None \<longrightarrow>
      discounted_cash_flow yf t n dr g1 g2 tg =
        Returned [(''Error Message'', PStr ''Market capitalization data unavailable.'')]) \<and>
    (fcf \<noteq> None \<and> map_of i ''marketCap'' \<noteq> None \<and> map_of i ''currentPrice'' = None \<longrightarrow>
      discounted_cash_flow yf t n dr g1 g2 tg =
        Returned [(''Error Message'', PStr ''Current price data unavailable.'')]) \<and>
    (fcf \<noteq> None \<and> map_of i ''marketCap'' \<noteq> None \<and> map_of i ''currentPrice'' \<noteq> None \<and>
     (liabilities = None \<or> cash = None) \<longrightarrow>
      discounted_cash_flow yf t n dr g1 g2 tg =
        Returned [(''Error Message'', PStr ''Net Debt data unavailable'')]) \<and>
    (fcf \<noteq> None \<and> map_of i ''marketCap'' \<noteq> None \<and> map_of i ''currentPrice'' \<noteq> None \<and>
     liabilities \<noteq> None \<and> cash \<noteq> None \<and> map_of i ''sharesOutstanding'' = None \<longrightarrow>
      discounted_cash_flow yf t n dr g1 g2 tg =
        Returned [(''Error Message'', PStr ''Shares outstanding unavailable.'')]) \<and>
    distinct [''Free Cash Flow data unavailable.'', ''Market capitalization data unavailable.'',
      ''Current price data unavailable.'', ''Net Debt data unavailable'',
      ''Shares outstanding unavailable.'']"
proof -
  have dcf: "discounted_cash_flow yf t n dr g1 g2 tg =
     (case retrieve yf t of
        Inl e \<Rightarrow> Returned (unexpected_error e)
      | Inr (Inl d) \<Rightarrow> Returned d
      | Inr (Inr f) \<Rightarrow>
          (case calculations f n dr g1 g2 tg of
             Inl e \<Rightarrow> Returned (unexpected_error e) | Inr d \<Rightarrow> Returned d))"
    unfolding dcf_valid_rates[OF assms(1-9)] try_body_def
    by (simp split: sum.splits)
  have r: "retrieve yf t =
      (case fcf of
        None \<Rightarrow> Inr (Inl (error_message ''Free Cash Flow data unavailable.''))
      | Some v \<Rightarrow>
      (case map_of i ''marketCap'' of
        None \<Rightarrow> Inr (Inl (error_message ''Market capitalization data unavailable.''))
      | Some cap \<Rightarrow>
      (case map_of i ''currentPrice'' of
        None \<Rightarrow> Inr (Inl (error_message ''Current price data unavailable.''))
      | Some price \<Rightarrow>
      (case (liabilities, cash) of
        (Some l, Some c) \<Rightarrow>
          (case map_of i ''sharesOutstanding'' of
             None \<Rightarrow> Inr (Inl (error_message ''Shares outstanding unavailable.''))
           | Some shares \<Rightarrow>
               Inr (Inr \<lparr> free_cash_flow = v, market_cap = cap, current_price = price,
                          total_liabilities = l, cash_and_equivalents = c,
                          net_debt = l - c, shares_outstanding = shares \<rparr>))
      | _ \<Rightarrow> Inr (Inl (error_message ''Net Debt data unavailable''))))))"
    unfolding retrieve_def Let_def using assms(10-18)
    by (simp split: option.splits)
  show ?thesis
    unfolding dcf r
    by (auto simp: error_message_def split: option.splits)
qed

theorem missing_figure_messages_witness:
  "discounted_cash_flow (\<lambda>t. no_fcf_stock) ''SMALL'' 2 (9/100) (1/10) (1/20) (3/100) =
     Returned [(''Error Message'', PStr ''Free Cash Flow data unavailable.'')] \<and>
   discounted_cash_flow (\<lambda>t. no_market_cap_stock) ''SMALL'' 2 (9/100) (1/10) (1/20) (3/100) =
     Returned [(''Error Message'', PStr ''Market capitalization data unavailable.'')] \<and>
   discounted_cash_flow (\<lambda>t. no_price_stock) ''SMALL'' 2 (9/100) (1/10) (1/20) (3/100) =
     Returned [(''Error Message'', PStr ''Current price data unavailable.'')] \<and>
   discounted_cash_flow (\<lambda>t. no_liabilities_stock) ''SMALL'' 2 (9/100) (1/10) (1/20) (3/100) =
     Returned [(''Error Message'', PStr ''Net Debt data unavailable'')] \<and>
   discounted_cash_flow (\<lambda>t. no_cash_stock) ''SMALL'' 2 (9/100) (1/10) (1/20) (3/100) =
     Returned [(''Error Message'', PStr ''Net Debt data unavailable'')] \<and>
   discounted_cash_flow (\<lambda>t. no_shares_stock) ''SMALL'' 2 (9/100) (1/10) (1/20) (3/100) =
     Returned [(''Error Message'', PStr ''Shares outstanding unavailable.'')]"
proof -
  have c1: "discounted_cash_flow (\<lambda>t. no_fcf_stock) ''SMALL'' 2 (9/100) (1/10) (1/20) (3/100) =
      Returned [(''Error Message'', PStr ''Free Cash Flow data unavailable.'')]"
    using missing_figure_messages[of "9/100" "1/10" "1/20" "3/100" "\<lambda>t. no_fcf_stock" "''SMALL''"
      "[(''marketCap'', 20000000), (''currentPrice'', 10), (''sharesOutstanding'', 1000000)]"
      "[(''Free Cash Flow'', [None])]"
      "[(''Total Liabilities'', [Some 3000000]), (''Cash And Cash Equivalents'', [Some 1000000])]"
      "None" "Some 3000000" "Some 1000000" 2]
    by (simp add: no_fcf_stock_def small_stock_def df_empty_def loc_iloc0_def total_liabilities_of_def)
  have c2: "discounted_cash_flow (\<lambda>t. no_market_cap_stock) ''SMALL'' 2 (9/100) (1/10) (1/20) (3/100) =
      Returned [(''Error Message'', PStr ''Market capitalization data unavailable.'')]"
    using missing_figure_messages[of "9/100" "1/10" "1/20" "3/100" "\<lambda>t. no_market_cap_stock" "''SMALL''"
      "[(''currentPrice'', 10), (''sharesOutstanding'', 1000000)]"
      "[(''Free Cash Flow'', [Some 1000000])]"
      "[(''Total Liabilities'', [Some 3000000]), (''Cash And Cash Equivalents'', [Some 1000000])]"
      "Some 1000000" "Some 3000000" "Some 1000000" 2]
    by (simp add: no_market_cap_stock_def small_stock_def df_empty_def loc_iloc0_def total_liabilities_of_def)
  have c3: "discounted_cash_flow (\<lambda>t. no_price_stock) ''SMALL'' 2 (9/100) (1/10) (1/20) (3/100) =
      Returned [(''Error Message'', PStr ''Current price data unavailable.'')]"
    using missing_figure_messages[of "9/100" "1/10" "1/20" "3/100" "\<lambda>t. no_price_stock" "''SMALL''"
      "[(''marketCap'', 20000000), (''sharesOutstanding'', 1000000)]"
      "[(''Free Cash Flow'', [Some 1000000])]"
      "[(''Total Liabilities'', [Some 3000000]), (''Cash And Cash Equivalents'', [Some 1000000])]"
      "Some 1000000" "Some 3000000" "Some 1000000" 2]
    by (simp add: no_price_stock_def small_stock_def df_empty_def loc_iloc0_def total_liabilities_of_def)
  have c4: "discounted_cash_flow (\<lambda>t. no_liabilities_stock) ''SMALL'' 2 (9/100) (1/10) (1/20) (3/100) =
      Returned [(''Error Message'', PStr ''Net Debt data unavailable'')]"
    using missing_figure_messages[of "9/100" "1/10" "1/20" "3/100" "\<lambda>t. no_liabilities_stock" "''SMALL''"
      "[(''marketCap'', 20000000), (''currentPrice'', 10), (''sharesOutstanding'', 1000000)]"
      "[(''Free Cash Flow'', [Some 1000000])]"
      "[(''Total Liabilities'', [None]), (''Cash And Cash Equivalents'', [Some 1000000])]"
      "Some 1000000" "None" "Some 1000000" 2]
    by (simp add: no_liabilities_stock_def small_stock_def df_empty_def loc_iloc0_def total_liabilities_of_def)
  have c5: "discounted_cash_flow (\<lambda>t. no_cash_stock) ''SMALL'' 2 (9/100) (1/10) (1/20) (3/100) =
      Returned [(''Error Message'', PStr ''Net Debt data unavailable'')]"
    using missing_figure_messages[of "9/100" "1/10" "1/20" "3/100" "\<lambda>t. no_cash_stock" "''SMALL''"
      "[(''marketCap'', 20000000), (''currentPrice'', 10), (''sharesOutstanding'', 1000000)]"
      "[(''Free Cash Flow'', [Some 1000000])]"
      "[(''Total Liabilities'', [Some 3000000]), (''Cash And Cash Equivalents'', [None])]"
      "Some 1000000" "Some 3000000" "None" 2]
    by (simp add: no_cash_stock_def small_stock_def df_empty_def loc_iloc0_def total_liabilities_of_def)
  have c6: "discounted_cash_flow (\<lambda>t. no_shares_stock) ''SMALL'' 2 (9/100) (1/10) (1/20) (3/100) =
      Returned [(''Error Message'', PStr ''Shares outstanding unavailable.'')]"
    using missing_figure_messages[of "9/100" "1/10" "1/20" "3/100" "\<lambda>t. no_shares_stock" "''SMALL''"
      "[(''marketCap'', 20000000), (''currentPrice'', 10)]"
      "[(''Free Cash Flow'', [Some 1000000])]"
      "[(''Total Liabilities'', [Some 3000000]), (''Cash And Cash Equivalents'', [Some 1000000])]"
      "Some 1000000" "Some 3000000" "Some 1000000" 2]
    by (simp add: no_shares_stock_def small_stock_def df_empty_def loc_iloc0_def total_liabilities_of_def)
  from c1 c2 c3 c4 c5 c6 show ?thesis by (intro conjI)
qed

text \<open>
  Claim C8 as stated fails: the error for missing total liabilities is the error for
  missing cash and equivalents.
\<close>

theorem liabilities_and_cash_share_one_error:
  "discounted_cash_flow (\<lambda>t. no_liabilities_stock) ''SMALL'' 2 (9/100) (1/10) (1/20) (3/100) =
   discounted_cash_flow (\<lambda>t. no_cash_stock) ''SMALL'' 2 (9/100) (1/10) (1/20) (3/100)"
  by (simp add: discounted_cash_flow_def try_body_def retrieve_def no_liabilities_stock_def
      no_cash_stock_def small_stock_def df_empty_def loc_iloc0_def total_liabilities_of_def)

subsection \<open>The sweep\<close>



lemma dcf_Raised:
  "discounted_cash_flow yf t n dr g1 g2 tg = Raised e \<Longrightarrow> \<exists>m. e = ValueError m"
  unfolding discounted_cash_flow_def
  by (auto split: if_splits sum.splits)

lemma cell_step_eq:
  "cell_step yf t n dr tg rest g1 g2 row =
     Inr (if g1 < g2 then row else row(g2 \<mapsto> stored_cell yf t n dr tg g1 g2))"
proof (cases "discounted_cash_flow yf t n dr g1 g2 tg")
  case (Raised e)
  with dcf_Raised[OF Raised] show ?thesis
    by (auto simp: cell_step_def stored_cell_def)
next
  case (Returned d)
  show ?thesis
  proof (cases "map_of d ''Intrinsic Value per Share''")
    case None
    then have "''Intrinsic Value per Share'' \<notin> set (map fst d)"
      by (simp add: map_of_eq_None_iff)
    with None Returned show ?thesis
      by (simp add: cell_step_def stored_cell_def)
  next
    case (Some v)
    then have "(''Intrinsic Value per Share'', v) \<in> set d"
      by (rule map_of_SomeD)
    then have "''Intrinsic Value per Share'' \<in> set (map fst d)" "d \<noteq> []"
      by force+
    with Some Returned show ?thesis
      by (simp add: cell_step_def stored_cell_def)
  qed
qed

lemma inner_loop_eq:
  "inner_loop yf t n dr tg rest g1 r2 row =
     Inr (\<lambda>g2. if g2 \<in> set r2 \<and> \<not> g1 < g2 then Some (stored_cell yf t n dr tg g1 g2)
               else row g2)"
proof (induction r2 arbitrary: row)
  case Nil
  show ?case by simp
next
  case (Cons g r2)
  show ?case
    by (auto simp add: cell_step_eq Cons.IH)
qed

lemma outer_loop_eq:
  "outer_loop yf t n dr tg rest r1 r2 results =
     Inr (\<lambda>g1. if g1 \<in> set r1
               then Some (\<lambda>g2. if g2 \<in> set r2 \<and> \<not> g1 < g2
                               then Some (stored_cell yf t n dr tg g1 g2) else None)
               else results g1)"
proof (induction r1 arbitrary: results)
  case Nil
  show ?case by simp
next
  case (Cons g r1)
  show ?case
    by (auto simp add: inner_loop_eq Cons.IH)
qed

lemma sensitivity_analysis_eq:
  "sensitivity_analysis yf n rest t dr r1 r2 tg =
     Returned (\<lambda>g1. if g1 \<in> set r1
               then Some (\<lambda>g2. if g2 \<in> set r2 \<and> \<not> g1 < g2
                               then Some (stored_cell yf t n dr tg g1 g2) else None)
               else None)"
  by (simp add: sensitivity_analysis_def outer_loop_eq)



lemma excluded_cells_absent:
  "\<exists>results. sensitivity_analysis yf n rest t dr r1 r2 tg = Returned results \<and>
     (\<forall>g1 \<in> set r1. \<forall>g2. g1 < g2 \<longrightarrow> (\<exists>row. results g1 = Some row \<and> row g2 = None))"
  unfolding sensitivity_analysis_eq by simp



text \<open>
  Claim C2. A sweep of the near-term rate 0.10 against the long-term rates 0.05 and 0.20:
  the pair (0.10, 0.20) is excluded. Line 173 assigns the string \<^verbatim>\<open>"-"\<close> to the local
  \<^verbatim>\<open>dcf_result\<close> and nothing stores it, so the row of 0.10 has the cell of 0.05 and no
  cell for 0.20.
\<close>

theorem excluded_pair_leaves_no_cell:
  "sensitivity_analysis (\<lambda>t. small_stock) 2 None ''SMALL'' (9/100) [1/10] [1/20, 1/5] (3/100) =
     Returned [1/10 \<mapsto> [1/20 \<mapsto> PNum (5726 / 327)]]"
  by (simp add: sensitivity_analysis_def cell_step_def dcf_small small_valuation_def)

end
